theory Spec2Isabelle
  imports Complex_Main
begin

section \<open>Values of the Python program\<close>

text \<open>
  The script \<open>worker/scripts/get_cvm_info.py\<close> works on the values that
  \<open>json.loads\<close> produces: \<open>None\<close>, booleans, integers, floats, strings,
  lists and dictionaries with string keys.  A float is kept as the rational
  number it denotes, with the values that are no rational number as
  constructors of their own.  A dictionary is an association list read with
  \<open>map_of\<close>; a parsed dictionary binds every key once.
\<close>

datatype pyfloat = FFinite rat | FNegZero | FPosInf | FNegInf | FNaN

datatype json =
    JNull
  | JBool bool
  | JInt int
  | JFloat pyfloat
  | JStr string
  | JList "json list"
  | JDict "(string \<times> json) list"

text \<open>The exceptions the script can meet; all of them derive from \<open>Exception\<close>.\<close>

datatype error = AttributeError | JSONDecodeError | StdinReadError

text \<open>Python's truth value of an object, as \<open>if x:\<close> and \<open>x or y\<close> test it
  (\<open>x or y\<close> is \<open>x\<close> when \<open>x\<close> is true and \<open>y\<close> otherwise).\<close>

fun truthy_float :: "pyfloat \<Rightarrow> bool" where
  "truthy_float (FFinite r) = (r \<noteq> 0)"
| "truthy_float FNegZero = False"
| "truthy_float FPosInf = True"
| "truthy_float FNegInf = True"
| "truthy_float FNaN = True"

fun truthy :: "json \<Rightarrow> bool" where
  "truthy JNull = False"
| "truthy (JBool b) = b"
| "truthy (JInt i) = (i \<noteq> 0)"
| "truthy (JFloat f) = truthy_float f"
| "truthy (JStr s) = (s \<noteq> [])"
| "truthy (JList xs) = (xs \<noteq> [])"
| "truthy (JDict kvs) = (kvs \<noteq> [])"

text \<open>\<open>isinstance(x, dict)\<close>.\<close>

fun isinstance_dict :: "json \<Rightarrow> bool" where
  "isinstance_dict (JDict kvs) = True"
| "isinstance_dict v = False"

text \<open>
  \<open>x.get(key, default)\<close>: only a dictionary has the method; on every other
  value the attribute lookup raises \<open>AttributeError\<close>.  \<open>x.get(key)\<close> is
  \<open>x.get(key, None)\<close>.
\<close>

fun py_get :: "json \<Rightarrow> string \<Rightarrow> json \<Rightarrow> error + json" where
  "py_get (JDict kvs) k dflt = Inr (case map_of kvs k of None \<Rightarrow> dflt | Some v \<Rightarrow> v)"
| "py_get v k dflt = Inl AttributeError"

text \<open>\<open>x == s\<close> for a string \<open>s\<close>: true for the equal string only.\<close>

fun eq_str :: "json \<Rightarrow> string \<Rightarrow> bool" where
  "eq_str (JStr t) s = (t = s)"
| "eq_str v s = False"

text \<open>Sequencing of computations that may raise.\<close>

definition ebind :: "error + 'a \<Rightarrow> ('a \<Rightarrow> error + 'b) \<Rightarrow> error + 'b" where
  "ebind m f = (case m of Inl e \<Rightarrow> Inl e | Inr x \<Rightarrow> f x)"


section \<open>The lookup\<close>

text \<open>
  One pass of the body of \<open>for item in items\<close> (lines 19 to 31).  The result
  \<open>True\<close> is the \<open>break\<close> with \<open>target = item\<close>; \<open>False\<close> is the
  \<open>continue\<close> and the end of the body alike.
\<close>

definition loop_body :: "string \<Rightarrow> json \<Rightarrow> error + bool" where
  "loop_body app_name item =
     ebind (py_get item ''status'' JNull) (\<lambda>status.
     ebind (py_get item ''hosted'' (JDict [])) (\<lambda>hosted.
     ebind (py_get hosted ''status'' JNull) (\<lambda>h_status.
       if eq_str status ''terminated'' \<or> eq_str h_status ''terminated'' then Inr False
       else
         ebind (py_get item ''name'' JNull) (\<lambda>n.
           if eq_str n app_name then Inr True
           else ebind (py_get hosted ''name'' JNull) (\<lambda>hn.
             if eq_str hn app_name then Inr True else Inr False)))))"

text \<open>The loop: \<open>target\<close> starts as \<open>None\<close> and is set by the first \<open>break\<close>.\<close>

primrec find_target :: "string \<Rightarrow> json list \<Rightarrow> error + json option" where
  "find_target app_name [] = Inr None"
| "find_target app_name (item # items) =
     (case loop_body app_name item of
        Inl e \<Rightarrow> Inl e
      | Inr True \<Rightarrow> Inr (Some item)
      | Inr False \<Rightarrow> find_target app_name items)"

text \<open>Lines 33 to 40: the result dictionary of a target that is true.\<close>

definition build_result :: "json \<Rightarrow> error + json" where
  "build_result target =
     ebind (py_get target ''hosted'' (JDict [])) (\<lambda>hosted.
     ebind (py_get hosted ''id'' JNull) (\<lambda>h_id.
     ebind (if truthy h_id then Inr h_id
            else ebind (py_get target ''id'' JNull) (\<lambda>t_id.
                 if truthy t_id then Inr t_id else py_get target ''vm_uuid'' JNull)) (\<lambda>r_id.
     ebind (py_get hosted ''app_id'' JNull) (\<lambda>h_app.
     ebind (if truthy h_app then Inr h_app else py_get target ''app_id'' JNull) (\<lambda>r_app.
     ebind (py_get target ''dapp_dashboard_url'' JNull) (\<lambda>t_url.
     ebind (if truthy t_url then Inr t_url else py_get hosted ''app_url'' JNull) (\<lambda>r_url.
       Inr (JDict [(''id'', r_id), (''app_id'', r_app), (''dashboard_url'', r_url)]))))))))"

text \<open>Lines 13 to 15: the item sequence of the parsed payload.\<close>

definition items_of :: "json \<Rightarrow> error + json list" where
  "items_of data =
     ebind (if isinstance_dict data then py_get data ''items'' (JList []) else Inr data) (\<lambda>items.
       case items of JList xs \<Rightarrow> Inr xs | _ \<Rightarrow> Inr [])"

text \<open>
  The process as the script sees it: what \<open>sys.stdin.read()\<close> yields (a text,
  or an exception when the bytes do not decode), whether it was called, and the
  two output streams.
\<close>

record world =
  stdin_text :: "error + string"
  stdin_read :: bool
  stdout :: string
  stderr :: string

definition sys_stdin_read :: "world \<Rightarrow> (error + string) \<times> world" where
  "sys_stdin_read w = (stdin_text w, w\<lparr>stdin_read := True\<rparr>)"

text \<open>
  The body of the \<open>try\<close> of \<open>get_cvm_info\<close> together with the final
  \<open>return None\<close>.  \<open>json.loads\<close> is the library's parser, taken as the
  parameter \<open>loads\<close>: \<open>None\<close> is an exception of the parser.
\<close>

definition try_body :: "(string \<Rightarrow> json option) \<Rightarrow> string \<Rightarrow> error + string \<Rightarrow> error + json option" where
  "try_body loads app_name rd =
     ebind rd (\<lambda>input_str.
       if input_str = [] then Inr None
       else
         ebind (case loads input_str of None \<Rightarrow> Inl JSONDecodeError | Some d \<Rightarrow> Inr d) (\<lambda>data.
         ebind (items_of data) (\<lambda>items.
         ebind (find_target app_name items) (\<lambda>target.
           case target of
             None \<Rightarrow> Inr None
           | Some t \<Rightarrow>
               if truthy t then ebind (build_result t) (\<lambda>r. Inr (Some r)) else Inr None))))"

text \<open>\<open>get_cvm_info\<close>: \<open>except Exception: return None\<close> around the body.\<close>

definition get_cvm_info :: "(string \<Rightarrow> json option) \<Rightarrow> string \<Rightarrow> world \<Rightarrow> json option \<times> world" where
  "get_cvm_info loads app_name w =
     (let (rd, w') = sys_stdin_read w
      in (case try_body loads app_name rd of Inl e \<Rightarrow> None | Inr r \<Rightarrow> r, w'))"

text \<open>
  The main block (lines 46 to 55).  \<open>print\<close> writes its text and a newline;
  \<open>json.dumps\<close> is the library's serialiser, taken as the parameter
  \<open>dumps\<close>.  The second component is the exit status.
\<close>

definition usage :: string where
  "usage = ''Usage: get_cvm_info.py <app_name>''"

definition newline :: string where
  "newline = [CHR 0x0A]"

definition main :: "(string \<Rightarrow> json option) \<Rightarrow> (json \<Rightarrow> string) \<Rightarrow> string list \<Rightarrow> world \<Rightarrow> world \<times> nat" where
  "main loads dumps argv w =
     (if length argv < 2 then (w\<lparr>stderr := stderr w @ usage @ newline\<rparr>, 1)
      else
        let (info, w') = get_cvm_info loads (argv ! 1) w
        in case info of
             None \<Rightarrow> (w', 1)
           | Some r \<Rightarrow>
               if truthy r then (w'\<lparr>stdout := stdout w' @ dumps r @ newline\<rparr>, 0)
               else (w', 1))"


section \<open>Vocabulary of the specification\<close>

text \<open>
  The specification speaks of the fields of an item and of its \<open>hosted\<close>
  mapping.  \<open>field v k\<close> is the value at key \<open>k\<close> of a mapping, \<open>JNull\<close>
  when the key is absent; \<open>hosted_of item\<close> is the value the script binds to
  \<open>hosted\<close>: the item's \<open>hosted\<close> field, the empty mapping when the key is
  absent.
\<close>

definition field :: "json \<Rightarrow> string \<Rightarrow> json" where
  "field v k =
     (case v of
        JDict kvs \<Rightarrow> (case map_of kvs k of None \<Rightarrow> JNull | Some x \<Rightarrow> x)
      | _ \<Rightarrow> JNull)"

definition hosted_of :: "json \<Rightarrow> json" where
  "hosted_of item =
     (case item of
        JDict kvs \<Rightarrow> (case map_of kvs ''hosted'' of None \<Rightarrow> JDict [] | Some h \<Rightarrow> h)
      | _ \<Rightarrow> JDict [])"

text \<open>
  An item as the data model of the specification has it: a mapping whose
  \<open>hosted\<close> field, when present, is a mapping.
\<close>

definition well_formed :: "json \<Rightarrow> bool" where
  "well_formed item = (isinstance_dict item \<and> isinstance_dict (hosted_of item))"

definition terminated :: "json \<Rightarrow> bool" where
  "terminated item =
     (eq_str (field item ''status'') ''terminated'' \<or>
      eq_str (field (hosted_of item) ''status'') ''terminated'')"

definition name_matches :: "string \<Rightarrow> json \<Rightarrow> bool" where
  "name_matches app_name item =
     (eq_str (field item ''name'') app_name \<or>
      eq_str (field (hosted_of item) ''name'') app_name)"

text \<open>
  Two ways of choosing among the candidates of a result field.
  \<open>first_non_null\<close> follows the words of the specification: the first
  candidate that is not null, null when there is none.  \<open>first_truthy\<close> is a
  chain of \<open>or\<close>: the first candidate that is true, the last candidate when
  no earlier one is true.
\<close>

fun first_non_null :: "json list \<Rightarrow> json" where
  "first_non_null [] = JNull"
| "first_non_null (x # xs) = (if x \<noteq> JNull then x else first_non_null xs)"

fun first_truthy :: "json list \<Rightarrow> json" where
  "first_truthy [] = JNull"
| "first_truthy [x] = x"
| "first_truthy (x # y # ys) = (if truthy x then x else first_truthy (y # ys))"

text \<open>The candidates of the three result fields, in the order of the specification.\<close>

definition id_candidates :: "json \<Rightarrow> json list" where
  "id_candidates item = [field (hosted_of item) ''id'', field item ''id'', field item ''vm_uuid'']"

definition app_id_candidates :: "json \<Rightarrow> json list" where
  "app_id_candidates item = [field (hosted_of item) ''app_id'', field item ''app_id'']"

definition dashboard_url_candidates :: "json \<Rightarrow> json list" where
  "dashboard_url_candidates item =
     [field item ''dapp_dashboard_url'', field (hosted_of item) ''app_url'']"

definition result_by :: "(json list \<Rightarrow> json) \<Rightarrow> json \<Rightarrow> json" where
  "result_by pick item =
     JDict [(''id'', pick (id_candidates item)),
            (''app_id'', pick (app_id_candidates item)),
            (''dashboard_url'', pick (dashboard_url_candidates item))]"

definition null_result :: json where
  "null_result = JDict [(''id'', JNull), (''app_id'', JNull), (''dashboard_url'', JNull)]"

text \<open>
  \<open>payload_is loads w data\<close>: the input stream of \<open>w\<close> holds a text that is
  not empty and that the parser reads as \<open>data\<close>.
\<close>

definition payload_is :: "(string \<Rightarrow> json option) \<Rightarrow> world \<Rightarrow> json \<Rightarrow> bool" where
  "payload_is loads w data =
     (case stdin_text w of Inl e \<Rightarrow> False | Inr s \<Rightarrow> s \<noteq> [] \<and> loads s = Some data)"

text \<open>\<open>match_found\<close>: the input is read and parsed and the loop ends with a target.\<close>

definition match_found :: "(string \<Rightarrow> json option) \<Rightarrow> string \<Rightarrow> world \<Rightarrow> bool" where
  "match_found loads app_name w =
     (case stdin_text w of
        Inl e \<Rightarrow> False
      | Inr s \<Rightarrow> s \<noteq> [] \<and>
          (case loads s of
             None \<Rightarrow> False
           | Some data \<Rightarrow>
               (case ebind (items_of data) (find_target app_name) of
                  Inr (Some m) \<Rightarrow> True
                | _ \<Rightarrow> False)))"

text \<open>A process that has read and written nothing, with the text \<open>s\<close> on its input.\<close>

definition fresh_world :: "string \<Rightarrow> world" where
  "fresh_world s = \<lparr>stdin_text = Inr s, stdin_read = False, stdout = [], stderr = []\<rparr>"


section \<open>Properties of the loop and of the result\<close>

lemma ebind_simps [simp]: "ebind (Inl e) f = Inl e" "ebind (Inr x) f = f x"
  by (simp_all add: ebind_def)

text \<open>
  On an item of the data model the loop body computes the condition of the
  specification; on every other element it raises.
\<close>

lemma loop_body_well_formed:
  "well_formed item \<Longrightarrow> loop_body app_name item = Inr (\<not> terminated item \<and> name_matches app_name item)"
  by (cases item; cases "hosted_of item")
     (auto simp: well_formed_def loop_body_def terminated_def name_matches_def field_def hosted_of_def split: option.splits)

lemma loop_body_ill_formed:
  "\<not> well_formed item \<Longrightarrow> loop_body app_name item = Inl AttributeError"
  by (cases item; cases "hosted_of item")
     (auto simp: well_formed_def loop_body_def hosted_of_def split: option.splits)

lemma loop_body_True_iff:
  "loop_body app_name item = Inr True \<longleftrightarrow> well_formed item \<and> \<not> terminated item \<and> name_matches app_name item"
  by (cases "well_formed item") (simp_all add: loop_body_well_formed loop_body_ill_formed)


text \<open>The loop: its target was selected by the body, and skipped items do not count.\<close>

lemma find_target_Some:
  "find_target app_name items = Inr (Some m) \<Longrightarrow> m \<in> set items \<and> loop_body app_name m = Inr True"
  by (induction items) (auto split: sum.splits bool.splits)


text \<open>
  A selected item has a \<open>name\<close> or a \<open>hosted\<close> key, so it is no empty
  dictionary and \<open>if target:\<close> holds; building its result does not raise.
\<close>

lemma name_matches_truthy: "well_formed item \<Longrightarrow> name_matches app_name item \<Longrightarrow> truthy item"
  by (cases item) (auto simp: name_matches_def field_def hosted_of_def well_formed_def split: option.splits)

lemma build_result_well_formed:
  "well_formed m \<Longrightarrow> build_result m = Inr (result_by first_truthy m)"
  by (cases m; cases "hosted_of m")
     (auto simp: well_formed_def build_result_def result_by_def id_candidates_def
        app_id_candidates_def dashboard_url_candidates_def field_def hosted_of_def
        split: option.splits)

lemma first_truthy_eq_first_non_null:
  "\<forall>c\<in>set cs. c = JNull \<or> truthy c \<Longrightarrow> first_truthy cs = first_non_null cs"
  by (induction cs rule: first_truthy.induct) auto

text \<open>\<open>get_cvm_info\<close> on an input that is read and parsed.\<close>

lemma get_cvm_info_payload:
  "payload_is loads w data \<Longrightarrow>
   fst (get_cvm_info loads app_name w) =
     (case ebind (items_of data) (find_target app_name) of
        Inl e \<Rightarrow> None
      | Inr None \<Rightarrow> None
      | Inr (Some t) \<Rightarrow> if truthy t then (case build_result t of Inl e \<Rightarrow> None | Inr r \<Rightarrow> Some r) else None)"
  by (auto simp: payload_is_def get_cvm_info_def sys_stdin_read_def try_body_def ebind_def
      split: sum.splits option.splits)

lemma get_cvm_info_found:
  assumes "payload_is loads w data" "items_of data = Inr items"
    "find_target app_name items = Inr (Some m)"
  shows "fst (get_cvm_info loads app_name w) = Some (result_by first_truthy m)"
proof -
  from find_target_Some [OF assms(3)] have "loop_body app_name m = Inr True" by simp
  then have wf: "well_formed m" and nm: "name_matches app_name m"
    by (simp_all add: loop_body_True_iff)
  from name_matches_truthy [OF wf nm] have "truthy m" .
  then show ?thesis
    by (simp add: get_cvm_info_payload [OF assms(1)] assms(2,3) build_result_well_formed [OF wf])
qed

lemma get_cvm_info_world: "snd (get_cvm_info loads app_name w) = w\<lparr>stdin_read := True\<rparr>"
  by (simp add: get_cvm_info_def sys_stdin_read_def)

text \<open>Without a selected item the loop ends without a target or raises.\<close>

lemma find_target_no_match:
  "\<forall>item\<in>set items. loop_body app_name item \<noteq> Inr True \<Longrightarrow>
   find_target app_name items = Inl AttributeError \<or> find_target app_name items = Inr None"
proof (induction items)
  case Nil
  then show ?case by simp
next
  case (Cons item items)
  then show ?case
    by (cases "well_formed item") (auto simp: loop_body_well_formed loop_body_ill_formed)
qed

lemma find_target_abort:
  assumes "\<forall>p\<in>set pre. loop_body app_name p \<noteq> Inr True" "\<not> well_formed x"
  shows "find_target app_name (pre @ x # post) = Inl AttributeError"
  using assms(1)
proof (induction pre)
  case Nil
  then show ?case by (simp add: loop_body_ill_formed [OF assms(2)])
next
  case (Cons p pre)
  then show ?case
    by (cases "well_formed p") (auto simp: loop_body_well_formed loop_body_ill_formed)
qed

lemma items_of_list [simp]: "items_of (JList xs) = Inr xs"
  by (simp add: items_of_def)

lemma items_of_dict:
  "map_of kvs ''items'' = Some (JList xs) \<Longrightarrow> items_of (JDict kvs) = Inr xs"
  by (simp add: items_of_def)

lemma items_of_total: "\<exists>items. items_of data = Inr items"
  by (cases data) (simp_all add: items_of_def split: json.splits option.splits)

text \<open>What \<open>get_cvm_info\<close> returns, and when it returns a result.\<close>

lemma get_cvm_info_shape:
  "fst (get_cvm_info loads app_name w) = None \<or>
   (\<exists>a b c. fst (get_cvm_info loads app_name w) = Some (JDict [(''id'', a), (''app_id'', b), (''dashboard_url'', c)]))"
  by (auto simp: get_cvm_info_def sys_stdin_read_def try_body_def ebind_def build_result_def
      split: sum.splits option.splits if_splits)

lemma get_cvm_info_Some_iff:
  "fst (get_cvm_info loads app_name w) \<noteq> None \<longleftrightarrow> match_found loads app_name w"
proof (cases "stdin_text w")
  case (Inl e)
  then show ?thesis
    by (simp add: get_cvm_info_def sys_stdin_read_def try_body_def match_found_def)
next
  case (Inr s)
  show ?thesis
  proof (cases "s = [] \<or> loads s = None")
    case True
    then show ?thesis using Inr
      by (auto simp: get_cvm_info_def sys_stdin_read_def try_body_def match_found_def)
  next
    case False
    then obtain data where d: "s \<noteq> []" "loads s = Some data" by auto
    then have p: "payload_is loads w data" using Inr by (simp add: payload_is_def)
    obtain items where i: "items_of data = Inr items"
      using items_of_total [of data] by blast
    show ?thesis
    proof (cases "find_target app_name items")
      case (Inl e)
      then show ?thesis using Inr d i
        by (simp add: get_cvm_info_payload [OF p] match_found_def)
    next
      case r: (Inr t)
      show ?thesis
      proof (cases t)
        case None
        then show ?thesis using Inr d i r
          by (simp add: get_cvm_info_payload [OF p] match_found_def)
      next
        case (Some m)
        then have "fst (get_cvm_info loads app_name w) = Some (result_by first_truthy m)"
          using get_cvm_info_found [OF p i] r by simp
        then show ?thesis using Inr d i r Some by (simp add: match_found_def)
      qed
    qed
  qed
qed

text \<open>The main block when a name is given: a result is a dictionary that is not empty.\<close>

lemma main_with_name:
  "2 \<le> length argv \<Longrightarrow>
   main loads dumps argv w =
     (case fst (get_cvm_info loads (argv ! 1) w) of
        None \<Rightarrow> (w\<lparr>stdin_read := True\<rparr>, 1)
      | Some r \<Rightarrow> (w\<lparr>stdin_read := True, stdout := stdout w @ dumps r @ newline\<rparr>, 0))"
  using get_cvm_info_shape [of loads "argv ! 1" w] get_cvm_info_world [of loads "argv ! 1" w]
  by (cases "get_cvm_info loads (argv ! 1) w") (auto simp: main_def split: option.splits)




text \<open>The definitions unfolded to run the script on a concrete input.\<close>

lemmas eval_defs = get_cvm_info_def sys_stdin_read_def try_body_def fresh_world_def items_of_def
  loop_body_def build_result_def


section \<open>The claims\<close>

subsection \<open>C1\<close>

text \<open>
  Claim C1 as stated fails.  For the payload
  \<^verbatim>\<open>[{"name":"a","id":"123","hosted":{"id":""}}]\<close> and the name \<open>a\<close> the
  script returns the \<open>id\<close> \<open>123\<close>: the empty string of hosted.id is not
  null, yet it falls through to item.id.  First-non-null-wins would give the
  empty string.
\<close>

theorem C1_empty_string_falls_through:
  "fst (get_cvm_info
      (map_of [(''[{\"name\":\"a\",\"id\":\"123\",\"hosted\":{\"id\":\"\"}}]'',
         JList [JDict [(''name'', JStr ''a''), (''id'', JStr ''123''), (''hosted'', JDict [(''id'', JStr '''')])]])])
      ''a'' (fresh_world ''[{\"name\":\"a\",\"id\":\"123\",\"hosted\":{\"id\":\"\"}}]''))
     = Some (JDict [(''id'', JStr ''123''), (''app_id'', JNull), (''dashboard_url'', JNull)]) \<and>
   result_by first_non_null
      (JDict [(''name'', JStr ''a''), (''id'', JStr ''123''), (''hosted'', JDict [(''id'', JStr '''')])])
     = JDict [(''id'', JStr ''''), (''app_id'', JNull), (''dashboard_url'', JNull)]"
  by (simp add: eval_defs result_by_def id_candidates_def app_id_candidates_def
      dashboard_url_candidates_def field_def hosted_of_def)

text \<open>
  Claim C1, as amended.  The result of a matched item takes, for each field,
  the candidates in the order of the specification (\<open>id\<close>: hosted.id,
  item.id, item.vm_uuid; \<open>app_id\<close>: hosted.app_id, item.app_id;
  \<open>dashboard_url\<close>: item.dapp_dashboard_url, hosted.app_url) and chooses
  with \<open>or\<close>: the first candidate that is true, the last candidate when no
  earlier one is true.  When every candidate is null or true, this is the first
  candidate that is not null.
\<close>

theorem C1_result_first_truthy:
  assumes "payload_is loads w data" and "items_of data = Inr items"
    and "find_target app_name items = Inr (Some m)"
  shows "fst (get_cvm_info loads app_name w) = Some (result_by first_truthy m) \<and>
    ((\<forall>c\<in>set (id_candidates m @ app_id_candidates m @ dashboard_url_candidates m).
        c = JNull \<or> truthy c) \<longrightarrow>
     fst (get_cvm_info loads app_name w) = Some (result_by first_non_null m))"
proof (intro conjI impI)
  show r: "fst (get_cvm_info loads app_name w) = Some (result_by first_truthy m)"
    using assms by (rule get_cvm_info_found)
  assume a: "\<forall>c\<in>set (id_candidates m @ app_id_candidates m @ dashboard_url_candidates m).
        c = JNull \<or> truthy c"
  have "first_truthy (id_candidates m) = first_non_null (id_candidates m)"
    "first_truthy (app_id_candidates m) = first_non_null (app_id_candidates m)"
    "first_truthy (dashboard_url_candidates m) = first_non_null (dashboard_url_candidates m)"
    using a by (auto intro!: first_truthy_eq_first_non_null)
  then show "fst (get_cvm_info loads app_name w) = Some (result_by first_non_null m)"
    by (simp add: r result_by_def)
qed

text \<open>The theorem at a concrete input.\<close>

theorem C1_result_first_truthy_witness:
  "payload_is
     (map_of [(''[{\"name\":\"a\",\"id\":\"123\",\"hosted\":{\"id\":\"999\",\"app_id\":\"app1\"}}]'',
        JList [JDict [(''name'', JStr ''a''), (''id'', JStr ''123''),
          (''hosted'', JDict [(''id'', JStr ''999''), (''app_id'', JStr ''app1'')])]])])
     (fresh_world ''[{\"name\":\"a\",\"id\":\"123\",\"hosted\":{\"id\":\"999\",\"app_id\":\"app1\"}}]'')
     (JList [JDict [(''name'', JStr ''a''), (''id'', JStr ''123''),
          (''hosted'', JDict [(''id'', JStr ''999''), (''app_id'', JStr ''app1'')])]]) \<and>
   find_target ''a'' [JDict [(''name'', JStr ''a''), (''id'', JStr ''123''),
          (''hosted'', JDict [(''id'', JStr ''999''), (''app_id'', JStr ''app1'')])]]
     = Inr (Some (JDict [(''name'', JStr ''a''), (''id'', JStr ''123''),
          (''hosted'', JDict [(''id'', JStr ''999''), (''app_id'', JStr ''app1'')])])) \<and>
   fst (get_cvm_info
     (map_of [(''[{\"name\":\"a\",\"id\":\"123\",\"hosted\":{\"id\":\"999\",\"app_id\":\"app1\"}}]'',
        JList [JDict [(''name'', JStr ''a''), (''id'', JStr ''123''),
          (''hosted'', JDict [(''id'', JStr ''999''), (''app_id'', JStr ''app1'')])]])])
     ''a'' (fresh_world ''[{\"name\":\"a\",\"id\":\"123\",\"hosted\":{\"id\":\"999\",\"app_id\":\"app1\"}}]''))
     = Some (JDict [(''id'', JStr ''999''), (''app_id'', JStr ''app1''), (''dashboard_url'', JNull)]) \<and>
   result_by first_non_null (JDict [(''name'', JStr ''a''), (''id'', JStr ''123''),
          (''hosted'', JDict [(''id'', JStr ''999''), (''app_id'', JStr ''app1'')])])
     = JDict [(''id'', JStr ''999''), (''app_id'', JStr ''app1''), (''dashboard_url'', JNull)]"
proof -
  let ?m = "JDict [(''name'', JStr ''a''), (''id'', JStr ''123''),
          (''hosted'', JDict [(''id'', JStr ''999''), (''app_id'', JStr ''app1'')])]"
  let ?s = "''[{\"name\":\"a\",\"id\":\"123\",\"hosted\":{\"id\":\"999\",\"app_id\":\"app1\"}}]''"
  let ?l = "map_of [(?s, JList [?m])]"
  have p: "payload_is ?l (fresh_world ?s) (JList [?m])"
    by (simp add: payload_is_def fresh_world_def)
  have i: "items_of (JList [?m]) = Inr [?m]" by simp
  have f: "find_target ''a'' [?m] = Inr (Some ?m)" by (simp add: loop_body_def)
  have c: "\<forall>c\<in>set (id_candidates ?m @ app_id_candidates ?m @ dashboard_url_candidates ?m).
      c = JNull \<or> truthy c"
    by (simp add: id_candidates_def app_id_candidates_def dashboard_url_candidates_def
        field_def hosted_of_def)
  have r: "result_by first_non_null ?m =
      JDict [(''id'', JStr ''999''), (''app_id'', JStr ''app1''), (''dashboard_url'', JNull)]"
    by (simp add: result_by_def id_candidates_def app_id_candidates_def
        dashboard_url_candidates_def field_def hosted_of_def)
  from C1_result_first_truthy [OF p i f] c
  have "fst (get_cvm_info ?l ''a'' (fresh_world ?s)) = Some (result_by first_non_null ?m)"
    by blast
  with p f r show ?thesis by simp
qed

subsection \<open>C2\<close>

text \<open>
  Claim C2 as stated fails.  For the payload
  \<^verbatim>\<open>[{"name":"a","hosted":"x"}]\<close> and the name \<open>a\<close> the lookup signals
  absence, while the same item with \<open>hosted\<close> the empty mapping matches and
  yields the all-null result.
\<close>

theorem C2_hosted_string_fails_lookup:
  "fst (get_cvm_info
      (map_of [(''[{\"name\":\"a\",\"hosted\":\"x\"}]'',
         JList [JDict [(''name'', JStr ''a''), (''hosted'', JStr ''x'')]])])
      ''a'' (fresh_world ''[{\"name\":\"a\",\"hosted\":\"x\"}]'')) = None \<and>
   fst (get_cvm_info
      (map_of [(''[{\"name\":\"a\",\"hosted\":{}}]'',
         JList [JDict [(''name'', JStr ''a''), (''hosted'', JDict [])]])])
      ''a'' (fresh_world ''[{\"name\":\"a\",\"hosted\":{}}]''))
     = Some (JDict [(''id'', JNull), (''app_id'', JNull), (''dashboard_url'', JNull)])"
  by (simp add: eval_defs)

text \<open>
  Claim C2, as amended.  An item without a \<open>hosted\<close> field is handled as if
  \<open>hosted\<close> were the empty mapping: the loop body and the result are those
  of the item with \<open>hosted\<close> set to \<open>{}\<close>, and the item matches by its own
  \<open>name\<close> unless its \<open>status\<close> is \<open>terminated\<close>.  An item whose
  \<open>hosted\<close> field is present and is not a mapping, reached by the scan before
  any match, makes the whole lookup signal absence.
\<close>

theorem C2_hosted_absent_or_not_mapping:
  "(map_of kvs ''hosted'' = None \<longrightarrow>
      loop_body app_name (JDict kvs) = loop_body app_name (JDict ((''hosted'', JDict []) # kvs)) \<and>
      build_result (JDict kvs) = build_result (JDict ((''hosted'', JDict []) # kvs)) \<and>
      loop_body app_name (JDict kvs) =
        Inr (\<not> eq_str (field (JDict kvs) ''status'') ''terminated'' \<and>
             eq_str (field (JDict kvs) ''name'') app_name)) \<and>
   (payload_is loads w data \<and> items_of data = Inr (pre @ JDict kvs # post) \<and>
    (\<forall>p\<in>set pre. \<not> well_formed p \<or> terminated p \<or> \<not> name_matches app_name p) \<and>
    map_of kvs ''hosted'' = Some h \<and> \<not> isinstance_dict h \<longrightarrow>
      fst (get_cvm_info loads app_name w) = None)"
proof (intro conjI impI)
  assume a: "map_of kvs ''hosted'' = None"
  then show "loop_body app_name (JDict kvs) = loop_body app_name (JDict ((''hosted'', JDict []) # kvs))"
    by (simp add: loop_body_def)
  from a show "build_result (JDict kvs) = build_result (JDict ((''hosted'', JDict []) # kvs))"
    by (simp add: build_result_def)
  from a show "loop_body app_name (JDict kvs) =
        Inr (\<not> eq_str (field (JDict kvs) ''status'') ''terminated'' \<and>
             eq_str (field (JDict kvs) ''name'') app_name)"
    by (auto simp: loop_body_def field_def split: option.splits)
next
  assume a: "payload_is loads w data \<and> items_of data = Inr (pre @ JDict kvs # post) \<and>
    (\<forall>p\<in>set pre. \<not> well_formed p \<or> terminated p \<or> \<not> name_matches app_name p) \<and>
    map_of kvs ''hosted'' = Some h \<and> \<not> isinstance_dict h"
  then have "\<forall>p\<in>set pre. loop_body app_name p \<noteq> Inr True"
    by (auto simp: loop_body_True_iff)
  moreover from a have "\<not> well_formed (JDict kvs)" by (simp add: well_formed_def hosted_of_def)
  ultimately have "find_target app_name (pre @ JDict kvs # post) = Inl AttributeError"
    by (rule find_target_abort)
  moreover from a have "payload_is loads w data" "items_of data = Inr (pre @ JDict kvs # post)"
    by simp_all
  ultimately show "fst (get_cvm_info loads app_name w) = None"
    by (simp add: get_cvm_info_payload)
qed

text \<open>The theorem at a concrete input.\<close>

theorem C2_hosted_absent_or_not_mapping_witness:
  "map_of [(''name'', JStr ''a'')] ''hosted'' = None \<and>
   loop_body ''a'' (JDict [(''name'', JStr ''a'')]) = Inr True \<and>
   loop_body ''a'' (JDict [(''hosted'', JDict []), (''name'', JStr ''a'')]) = Inr True \<and>
   payload_is
     (map_of [(''[{\"name\":\"b\"},{\"name\":\"a\",\"hosted\":null},{\"name\":\"a\"}]'',
        JList [JDict [(''name'', JStr ''b'')], JDict [(''name'', JStr ''a''), (''hosted'', JNull)],
          JDict [(''name'', JStr ''a'')]])])
     (fresh_world ''[{\"name\":\"b\"},{\"name\":\"a\",\"hosted\":null},{\"name\":\"a\"}]'')
     (JList [JDict [(''name'', JStr ''b'')], JDict [(''name'', JStr ''a''), (''hosted'', JNull)],
          JDict [(''name'', JStr ''a'')]]) \<and>
   list_all (\<lambda>p. \<not> well_formed p \<or> terminated p \<or> \<not> name_matches ''a'' p) [JDict [(''name'', JStr ''b'')]] \<and>
   map_of [(''name'', JStr ''a''), (''hosted'', JNull)] ''hosted'' = Some JNull \<and>
   \<not> isinstance_dict JNull \<and>
   fst (get_cvm_info
     (map_of [(''[{\"name\":\"b\"},{\"name\":\"a\",\"hosted\":null},{\"name\":\"a\"}]'',
        JList [JDict [(''name'', JStr ''b'')], JDict [(''name'', JStr ''a''), (''hosted'', JNull)],
          JDict [(''name'', JStr ''a'')]])])
     ''a'' (fresh_world ''[{\"name\":\"b\"},{\"name\":\"a\",\"hosted\":null},{\"name\":\"a\"}]'')) = None"
proof -
  let ?b = "JDict [(''name'', JStr ''b'')]"
  let ?a = "JDict [(''name'', JStr ''a'')]"
  let ?kvs = "[(''name'', JStr ''a''), (''hosted'', JNull)]"
  let ?s = "''[{\"name\":\"b\"},{\"name\":\"a\",\"hosted\":null},{\"name\":\"a\"}]''"
  let ?d = "JList [?b, JDict ?kvs, ?a]"
  let ?l = "map_of [(?s, ?d)]"
  have h: "map_of [(''name'', JStr ''a'')] ''hosted'' = None" by simp
  have p: "payload_is ?l (fresh_world ?s) ?d" by (simp add: payload_is_def fresh_world_def)
  have i: "items_of ?d = Inr ([?b] @ JDict ?kvs # [?a])" by simp
  have q: "list_all (\<lambda>p. \<not> well_formed p \<or> terminated p \<or> \<not> name_matches ''a'' p) [?b]"
    by (simp add: name_matches_def field_def hosted_of_def)
  have k: "map_of ?kvs ''hosted'' = Some JNull" by simp
  have n: "\<not> isinstance_dict JNull" by simp
  note t1 = C2_hosted_absent_or_not_mapping [where kvs = "[(''name'', JStr ''a'')]" and app_name = "''a''"]
  note t = C2_hosted_absent_or_not_mapping [where kvs = ?kvs and app_name = "''a''" and loads = ?l
      and w = "fresh_world ?s" and data = ?d and pre = "[?b]" and post = "[?a]" and h = JNull]
  from t1 h have "loop_body ''a'' ?a = Inr True \<and>
    loop_body ''a'' (JDict [(''hosted'', JDict []), (''name'', JStr ''a'')]) = Inr True"
    by (auto simp: field_def)
  moreover from t p i q [unfolded list_all_iff] k n
  have "fst (get_cvm_info ?l ''a'' (fresh_world ?s)) = None" by blast
  ultimately show ?thesis using h p q k n by simp
qed

subsection \<open>C3\<close>

text \<open>
  Claim C3.  \<open>get_cvm_info\<close> never raises: its value is \<open>None\<close> for an
  empty input, for an input the parser rejects, for a payload none of whose
  items is a match that is not terminated, and whenever the body of the
  \<open>try\<close> raises.  Every other value is a complete result with its three
  keys.
\<close>

theorem C3_absence_never_exception:
  "(stdin_text w = Inr [] \<longrightarrow> fst (get_cvm_info loads app_name w) = None) \<and>
   (stdin_text w = Inr s \<and> loads s = None \<longrightarrow> fst (get_cvm_info loads app_name w) = None) \<and>
   (payload_is loads w data \<and> items_of data = Inr items \<and>
      (\<forall>item\<in>set items. terminated item \<or> \<not> name_matches app_name item) \<longrightarrow>
      fst (get_cvm_info loads app_name w) = None) \<and>
   (try_body loads app_name (stdin_text w) = Inl e \<longrightarrow> fst (get_cvm_info loads app_name w) = None) \<and>
   (fst (get_cvm_info loads app_name w) = None \<or>
    (\<exists>a b c. fst (get_cvm_info loads app_name w) =
       Some (JDict [(''id'', a), (''app_id'', b), (''dashboard_url'', c)])))"
proof (intro conjI impI)
  assume "stdin_text w = Inr []"
  then show "fst (get_cvm_info loads app_name w) = None"
    by (simp add: get_cvm_info_def sys_stdin_read_def try_body_def)
next
  assume "stdin_text w = Inr s \<and> loads s = None"
  then show "fst (get_cvm_info loads app_name w) = None"
    by (simp add: get_cvm_info_def sys_stdin_read_def try_body_def)
next
  assume a: "payload_is loads w data \<and> items_of data = Inr items \<and>
      (\<forall>item\<in>set items. terminated item \<or> \<not> name_matches app_name item)"
  then have "\<forall>item\<in>set items. loop_body app_name item \<noteq> Inr True"
    by (auto simp: loop_body_True_iff)
  from find_target_no_match [OF this] a show "fst (get_cvm_info loads app_name w) = None"
    by (auto simp: get_cvm_info_payload)
next
  assume "try_body loads app_name (stdin_text w) = Inl e"
  then show "fst (get_cvm_info loads app_name w) = None"
    by (simp add: get_cvm_info_def sys_stdin_read_def)
next
  show "fst (get_cvm_info loads app_name w) = None \<or>
    (\<exists>a b c. fst (get_cvm_info loads app_name w) =
       Some (JDict [(''id'', a), (''app_id'', b), (''dashboard_url'', c)]))"
    by (rule get_cvm_info_shape)
qed

text \<open>The theorem at a concrete input.\<close>

theorem C3_absence_never_exception_witness:
  "(stdin_text (fresh_world []) = Inr [] \<and>
      fst (get_cvm_info (\<lambda>s. None) ''a'' (fresh_world [])) = None) \<and>
   (stdin_text (fresh_world ''{'') = Inr ''{'' \<and> (\<lambda>s. None) ''{'' = (None :: json option) \<and>
      fst (get_cvm_info (\<lambda>s. None) ''a'' (fresh_world ''{'')) = None) \<and>
   (payload_is
      (map_of [(''{\"items\":[{\"name\":\"a\",\"status\":\"terminated\",\"id\":\"x\"}]}'',
         JDict [(''items'', JList [JDict [(''name'', JStr ''a''), (''status'', JStr ''terminated''), (''id'', JStr ''x'')]])])])
      (fresh_world ''{\"items\":[{\"name\":\"a\",\"status\":\"terminated\",\"id\":\"x\"}]}'')
      (JDict [(''items'', JList [JDict [(''name'', JStr ''a''), (''status'', JStr ''terminated''), (''id'', JStr ''x'')]])]) \<and>
    items_of (JDict [(''items'', JList [JDict [(''name'', JStr ''a''), (''status'', JStr ''terminated''), (''id'', JStr ''x'')]])]) =
      Inr [JDict [(''name'', JStr ''a''), (''status'', JStr ''terminated''), (''id'', JStr ''x'')]] \<and>
    list_all (\<lambda>item. terminated item \<or> \<not> name_matches ''a'' item)
      [JDict [(''name'', JStr ''a''), (''status'', JStr ''terminated''), (''id'', JStr ''x'')]] \<and>
    fst (get_cvm_info
      (map_of [(''{\"items\":[{\"name\":\"a\",\"status\":\"terminated\",\"id\":\"x\"}]}'',
         JDict [(''items'', JList [JDict [(''name'', JStr ''a''), (''status'', JStr ''terminated''), (''id'', JStr ''x'')]])])])
      ''a'' (fresh_world ''{\"items\":[{\"name\":\"a\",\"status\":\"terminated\",\"id\":\"x\"}]}'')) = None) \<and>
   (try_body (map_of [(''[1]'', JList [JInt 1])]) ''a'' (stdin_text (fresh_world ''[1]'')) = Inl AttributeError \<and>
      fst (get_cvm_info (map_of [(''[1]'', JList [JInt 1])]) ''a'' (fresh_world ''[1]'')) = None)"
proof (intro conjI)
  let ?t = "JDict [(''name'', JStr ''a''), (''status'', JStr ''terminated''), (''id'', JStr ''x'')]"
  let ?d = "JDict [(''items'', JList [?t])]"
  let ?s = "''{\"items\":[{\"name\":\"a\",\"status\":\"terminated\",\"id\":\"x\"}]}''"
  let ?l = "map_of [(?s, ?d)]"
  show e: "stdin_text (fresh_world []) = Inr []" by (simp add: fresh_world_def)
  show "fst (get_cvm_info (\<lambda>s. None) ''a'' (fresh_world [])) = None"
    using C3_absence_never_exception [of "fresh_world []" "\<lambda>s. None" "''a''"] e by blast
  show m1: "stdin_text (fresh_world ''{'') = Inr ''{''" by (simp add: fresh_world_def)
  show m2: "(\<lambda>s. None) ''{'' = (None :: json option)" by simp
  show "fst (get_cvm_info (\<lambda>s. None) ''a'' (fresh_world ''{'')) = None"
    using C3_absence_never_exception [of "fresh_world ''{''" "\<lambda>s. None" "''a''" "''{''"] m1 by blast
  show n1: "payload_is ?l (fresh_world ?s) ?d" by (simp add: payload_is_def fresh_world_def)
  show n2: "items_of ?d = Inr [?t]" by (simp add: items_of_def)
  show n3: "list_all (\<lambda>item. terminated item \<or> \<not> name_matches ''a'' item) [?t]"
    by (simp add: terminated_def field_def)
  show "fst (get_cvm_info ?l ''a'' (fresh_world ?s)) = None"
    using C3_absence_never_exception [of "fresh_world ?s" ?l "''a''" _ ?d "[?t]"] n1 n2
      n3 [unfolded list_all_iff] by blast
  show i1: "try_body (map_of [(''[1]'', JList [JInt 1])]) ''a'' (stdin_text (fresh_world ''[1]'')) = Inl AttributeError"
    by (simp add: try_body_def fresh_world_def items_of_def loop_body_def)
  show "fst (get_cvm_info (map_of [(''[1]'', JList [JInt 1])]) ''a'' (fresh_world ''[1]'')) = None"
    using C3_absence_never_exception [of "fresh_world ''[1]''" "map_of [(''[1]'', JList [JInt 1])]" "''a''" _ _ _ AttributeError] i1 by blast
qed

subsection \<open>C4\<close>



subsection \<open>C5\<close>



subsection \<open>C6\<close>

text \<open>
  Claim C6.  A payload that is the bare list \<open>L\<close> and a payload that is an
  object with \<open>L\<close> at the key \<open>items\<close> give the same result for the same
  target name.
\<close>

theorem C6_list_and_items_object_agree:
  assumes "payload_is loads w1 (JList L)" and "payload_is loads w2 (JDict kvs)"
    and "map_of kvs ''items'' = Some (JList L)"
  shows "fst (get_cvm_info loads app_name w1) = fst (get_cvm_info loads app_name w2)"
  by (simp add: get_cvm_info_payload [OF assms(1)] get_cvm_info_payload [OF assms(2)]
      items_of_dict [OF assms(3)])

text \<open>The theorem at a concrete input.\<close>

theorem C6_list_and_items_object_agree_witness:
  "payload_is
     (map_of [(''[{\"name\":\"a\",\"id\":\"1\"}]'', JList [JDict [(''name'', JStr ''a''), (''id'', JStr ''1'')]]),
              (''{\"items\":[{\"name\":\"a\",\"id\":\"1\"}]}'',
                 JDict [(''items'', JList [JDict [(''name'', JStr ''a''), (''id'', JStr ''1'')]])])])
     (fresh_world ''[{\"name\":\"a\",\"id\":\"1\"}]'')
     (JList [JDict [(''name'', JStr ''a''), (''id'', JStr ''1'')]]) \<and>
   payload_is
     (map_of [(''[{\"name\":\"a\",\"id\":\"1\"}]'', JList [JDict [(''name'', JStr ''a''), (''id'', JStr ''1'')]]),
              (''{\"items\":[{\"name\":\"a\",\"id\":\"1\"}]}'',
                 JDict [(''items'', JList [JDict [(''name'', JStr ''a''), (''id'', JStr ''1'')]])])])
     (fresh_world ''{\"items\":[{\"name\":\"a\",\"id\":\"1\"}]}'')
     (JDict [(''items'', JList [JDict [(''name'', JStr ''a''), (''id'', JStr ''1'')]])]) \<and>
   map_of [(''items'', JList [JDict [(''name'', JStr ''a''), (''id'', JStr ''1'')]])] ''items''
     = Some (JList [JDict [(''name'', JStr ''a''), (''id'', JStr ''1'')]]) \<and>
   fst (get_cvm_info
     (map_of [(''[{\"name\":\"a\",\"id\":\"1\"}]'', JList [JDict [(''name'', JStr ''a''), (''id'', JStr ''1'')]]),
              (''{\"items\":[{\"name\":\"a\",\"id\":\"1\"}]}'',
                 JDict [(''items'', JList [JDict [(''name'', JStr ''a''), (''id'', JStr ''1'')]])])])
     ''a'' (fresh_world ''{\"items\":[{\"name\":\"a\",\"id\":\"1\"}]}''))
     = Some (JDict [(''id'', JStr ''1''), (''app_id'', JNull), (''dashboard_url'', JNull)]) \<and>
   fst (get_cvm_info
     (map_of [(''[{\"name\":\"a\",\"id\":\"1\"}]'', JList [JDict [(''name'', JStr ''a''), (''id'', JStr ''1'')]]),
              (''{\"items\":[{\"name\":\"a\",\"id\":\"1\"}]}'',
                 JDict [(''items'', JList [JDict [(''name'', JStr ''a''), (''id'', JStr ''1'')]])])])
     ''a'' (fresh_world ''[{\"name\":\"a\",\"id\":\"1\"}]''))
     = Some (JDict [(''id'', JStr ''1''), (''app_id'', JNull), (''dashboard_url'', JNull)])"
proof -
  let ?m = "JDict [(''name'', JStr ''a''), (''id'', JStr ''1'')]"
  let ?s1 = "''[{\"name\":\"a\",\"id\":\"1\"}]''"
  let ?s2 = "''{\"items\":[{\"name\":\"a\",\"id\":\"1\"}]}''"
  let ?l = "map_of [(?s1, JList [?m]), (?s2, JDict [(''items'', JList [?m])])]"
  have p1: "payload_is ?l (fresh_world ?s1) (JList [?m])"
    by (simp add: payload_is_def fresh_world_def)
  have p2: "payload_is ?l (fresh_world ?s2) (JDict [(''items'', JList [?m])])"
    by (simp add: payload_is_def fresh_world_def)
  have k: "map_of [(''items'', JList [?m])] ''items'' = Some (JList [?m])" by simp
  have r: "fst (get_cvm_info ?l ''a'' (fresh_world ?s2)) =
      Some (JDict [(''id'', JStr ''1''), (''app_id'', JNull), (''dashboard_url'', JNull)])"
    by (simp add: eval_defs)
  from C6_list_and_items_object_agree [OF p1 p2 k, of "''a''"] r
  have "fst (get_cvm_info ?l ''a'' (fresh_world ?s1)) =
      Some (JDict [(''id'', JStr ''1''), (''app_id'', JNull), (''dashboard_url'', JNull)])"
    by simp
  with p1 p2 k r show ?thesis by simp
qed

subsection \<open>C7\<close>

text \<open>
  Claim C7.  When a name argument is given and the lookup finds a match, the
  process prints the serialised result, an object with the keys \<open>id\<close>,
  \<open>app_id\<close> and \<open>dashboard_url\<close>, followed by a newline, and exits with
  status 0.  In every other case it exits with status 1 and writes nothing to
  the output stream.
\<close>

theorem C7_exit_status_and_output:
  "(2 \<le> length argv \<and> match_found loads (argv ! 1) w \<longrightarrow>
      (\<exists>a b c. fst (get_cvm_info loads (argv ! 1) w) =
           Some (JDict [(''id'', a), (''app_id'', b), (''dashboard_url'', c)]) \<and>
         main loads dumps argv w =
           (w\<lparr>stdin_read := True,
              stdout := stdout w @ dumps (JDict [(''id'', a), (''app_id'', b), (''dashboard_url'', c)]) @ newline\<rparr>,
            0))) \<and>
   (\<not> (2 \<le> length argv \<and> match_found loads (argv ! 1) w) \<longrightarrow>
      snd (main loads dumps argv w) = 1 \<and> stdout (fst (main loads dumps argv w)) = stdout w)"
proof (intro conjI impI)
  assume a: "2 \<le> length argv \<and> match_found loads (argv ! 1) w"
  then have "fst (get_cvm_info loads (argv ! 1) w) \<noteq> None"
    using get_cvm_info_Some_iff [of loads "argv ! 1" w] by blast
  with get_cvm_info_shape [of loads "argv ! 1" w]
  obtain a' b c where "fst (get_cvm_info loads (argv ! 1) w) =
      Some (JDict [(''id'', a'), (''app_id'', b), (''dashboard_url'', c)])" by auto
  moreover from this a have "main loads dumps argv w =
           (w\<lparr>stdin_read := True,
              stdout := stdout w @ dumps (JDict [(''id'', a'), (''app_id'', b), (''dashboard_url'', c)]) @ newline\<rparr>,
            0)"
    by (simp add: main_with_name)
  ultimately show "\<exists>a b c. fst (get_cvm_info loads (argv ! 1) w) =
           Some (JDict [(''id'', a), (''app_id'', b), (''dashboard_url'', c)]) \<and>
         main loads dumps argv w =
           (w\<lparr>stdin_read := True,
              stdout := stdout w @ dumps (JDict [(''id'', a), (''app_id'', b), (''dashboard_url'', c)]) @ newline\<rparr>,
            0)" by blast
next
  assume a: "\<not> (2 \<le> length argv \<and> match_found loads (argv ! 1) w)"
  show "snd (main loads dumps argv w) = 1"
  proof (cases "2 \<le> length argv")
    case True
    with a have "fst (get_cvm_info loads (argv ! 1) w) = None"
      using get_cvm_info_Some_iff [of loads "argv ! 1" w] by blast
    with True show ?thesis by (simp add: main_with_name)
  next
    case False
    then show ?thesis by (simp add: main_def)
  qed
  show "stdout (fst (main loads dumps argv w)) = stdout w"
  proof (cases "2 \<le> length argv")
    case True
    with a have "fst (get_cvm_info loads (argv ! 1) w) = None"
      using get_cvm_info_Some_iff [of loads "argv ! 1" w] by blast
    with True show ?thesis by (simp add: main_with_name)
  next
    case False
    then show ?thesis by (simp add: main_def)
  qed
qed

text \<open>The theorem at a concrete input.\<close>

theorem C7_exit_status_and_output_witness:
  "2 \<le> length [''get_cvm_info.py'', ''a''] \<and>
   match_found
     (map_of [(''[{\"name\":\"a\",\"id\":\"1\"}]'', JList [JDict [(''name'', JStr ''a''), (''id'', JStr ''1'')]])])
     ([''get_cvm_info.py'', ''a''] ! 1) (fresh_world ''[{\"name\":\"a\",\"id\":\"1\"}]'') \<and>
   main
     (map_of [(''[{\"name\":\"a\",\"id\":\"1\"}]'', JList [JDict [(''name'', JStr ''a''), (''id'', JStr ''1'')]])])
     (\<lambda>r. if r = JDict [(''id'', JStr ''1''), (''app_id'', JNull), (''dashboard_url'', JNull)]
          then ''{\"id\": \"1\", \"app_id\": null, \"dashboard_url\": null}'' else [])
     [''get_cvm_info.py'', ''a''] (fresh_world ''[{\"name\":\"a\",\"id\":\"1\"}]'')
     = (\<lparr>stdin_text = Inr ''[{\"name\":\"a\",\"id\":\"1\"}]'', stdin_read = True,
         stdout = ''{\"id\": \"1\", \"app_id\": null, \"dashboard_url\": null}'' @ [CHR 0x0A],
         stderr = []\<rparr>, 0) \<and>
   \<not> (2 \<le> length [''get_cvm_info.py'', ''zz''] \<and>
      match_found
        (map_of [(''[{\"name\":\"a\",\"id\":\"1\"}]'', JList [JDict [(''name'', JStr ''a''), (''id'', JStr ''1'')]])])
        ([''get_cvm_info.py'', ''zz''] ! 1) (fresh_world ''[{\"name\":\"a\",\"id\":\"1\"}]'')) \<and>
   snd (main
     (map_of [(''[{\"name\":\"a\",\"id\":\"1\"}]'', JList [JDict [(''name'', JStr ''a''), (''id'', JStr ''1'')]])])
     (\<lambda>r. ''{}'') [''get_cvm_info.py'', ''zz''] (fresh_world ''[{\"name\":\"a\",\"id\":\"1\"}]'')) = 1 \<and>
   stdout (fst (main
     (map_of [(''[{\"name\":\"a\",\"id\":\"1\"}]'', JList [JDict [(''name'', JStr ''a''), (''id'', JStr ''1'')]])])
     (\<lambda>r. ''{}'') [''get_cvm_info.py'', ''zz''] (fresh_world ''[{\"name\":\"a\",\"id\":\"1\"}]''))) = []"
proof -
  let ?m = "JDict [(''name'', JStr ''a''), (''id'', JStr ''1'')]"
  let ?s = "''[{\"name\":\"a\",\"id\":\"1\"}]''"
  let ?l = "map_of [(?s, JList [?m])]"
  let ?r = "JDict [(''id'', JStr ''1''), (''app_id'', JNull), (''dashboard_url'', JNull)]"
  let ?o = "''{\"id\": \"1\", \"app_id\": null, \"dashboard_url\": null}''"
  let ?dumps = "\<lambda>r. if r = ?r then ?o else []"
  have l: "2 \<le> length [''get_cvm_info.py'', ''a'']" by simp
  have f: "match_found ?l ([''get_cvm_info.py'', ''a''] ! 1) (fresh_world ?s)"
    by (simp add: match_found_def fresh_world_def loop_body_def)
  have g: "fst (get_cvm_info ?l ([''get_cvm_info.py'', ''a''] ! 1) (fresh_world ?s)) = Some ?r"
    by (simp add: eval_defs)
  have n: "\<not> (2 \<le> length [''get_cvm_info.py'', ''zz''] \<and>
      match_found ?l ([''get_cvm_info.py'', ''zz''] ! 1) (fresh_world ?s))"
    by (simp add: match_found_def fresh_world_def loop_body_def)
  from C7_exit_status_and_output [of "[''get_cvm_info.py'', ''a'']" ?l "fresh_world ?s" ?dumps] l f g
  have "main ?l ?dumps [''get_cvm_info.py'', ''a''] (fresh_world ?s) =
      (\<lparr>stdin_text = Inr ?s, stdin_read = True, stdout = ?o @ [CHR 0x0A], stderr = []\<rparr>, 0)"
    by (auto simp: fresh_world_def newline_def)
  moreover
  from C7_exit_status_and_output [of "[''get_cvm_info.py'', ''zz'']" ?l "fresh_world ?s" "\<lambda>r. ''{}''"] n
  have "snd (main ?l (\<lambda>r. ''{}'') [''get_cvm_info.py'', ''zz''] (fresh_world ?s)) = 1 \<and>
    stdout (fst (main ?l (\<lambda>r. ''{}'') [''get_cvm_info.py'', ''zz''] (fresh_world ?s))) = []"
    by (simp add: fresh_world_def)
  ultimately show ?thesis using l f n by simp
qed

subsection \<open>C8\<close>

text \<open>
  Claim C8.  Started without a name argument, the process writes the usage line
  to the error stream and exits with status 1; the input stream is not read
  and nothing is written to the output stream.
\<close>

theorem C8_usage_without_name:
  "length argv < 2 \<Longrightarrow>
   main loads dumps argv w = (w\<lparr>stderr := stderr w @ usage @ newline\<rparr>, 1) \<and>
   stdin_read (fst (main loads dumps argv w)) = stdin_read w \<and>
   stdout (fst (main loads dumps argv w)) = stdout w"
  by (simp add: main_def)

text \<open>The theorem at a concrete input.\<close>

theorem C8_usage_without_name_witness:
  "length [''get_cvm_info.py''] < 2 \<and>
   main (\<lambda>s. Some (JList [JDict [(''name'', JStr ''a'')]])) (\<lambda>r. ''{}'') [''get_cvm_info.py''] (fresh_world ''[{\"name\":\"a\"}]'') =
     (\<lparr>stdin_text = Inr ''[{\"name\":\"a\"}]'', stdin_read = False, stdout = [],
       stderr = ''Usage: get_cvm_info.py <app_name>'' @ [CHR 0x0A]\<rparr>, 1)"
  using C8_usage_without_name [of "[''get_cvm_info.py'']" "\<lambda>s. Some (JList [JDict [(''name'', JStr ''a'')]])" "\<lambda>r. ''{}''" "fresh_world ''[{\"name\":\"a\"}]''"]
  by (simp add: fresh_world_def usage_def newline_def)

subsection \<open>C9\<close>

text \<open>
  Claim C9.  When the scan reaches an element that is no mapping before any
  match, the loop raises and \<open>get_cvm_info\<close> signals absence, also when a
  later element matches the target name.
\<close>

theorem C9_non_mapping_item_aborts:
  assumes "payload_is loads w data" and "items_of data = Inr (pre @ x # post)"
    and "\<forall>p\<in>set pre. \<not> well_formed p \<or> terminated p \<or> \<not> name_matches app_name p"
    and "\<not> isinstance_dict x"
  shows "find_target app_name (pre @ x # post) = Inl AttributeError \<and>
    fst (get_cvm_info loads app_name w) = None"
proof -
  from assms(3) have "\<forall>p\<in>set pre. loop_body app_name p \<noteq> Inr True"
    by (auto simp: loop_body_True_iff)
  moreover from assms(4) have "\<not> well_formed x" by (simp add: well_formed_def)
  ultimately have "find_target app_name (pre @ x # post) = Inl AttributeError"
    by (rule find_target_abort)
  then show ?thesis by (simp add: get_cvm_info_payload [OF assms(1)] assms(2))
qed

text \<open>The theorem at a concrete input.\<close>

theorem C9_non_mapping_item_aborts_witness:
  "payload_is
     (map_of [(''[{\"name\":\"b\"},1,{\"name\":\"a\"}]'',
        JList [JDict [(''name'', JStr ''b'')], JInt 1, JDict [(''name'', JStr ''a'')]])])
     (fresh_world ''[{\"name\":\"b\"},1,{\"name\":\"a\"}]'')
     (JList [JDict [(''name'', JStr ''b'')], JInt 1, JDict [(''name'', JStr ''a'')]]) \<and>
   list_all (\<lambda>p. \<not> well_formed p \<or> terminated p \<or> \<not> name_matches ''a'' p) [JDict [(''name'', JStr ''b'')]] \<and>
   \<not> isinstance_dict (JInt 1) \<and>
   loop_body ''a'' (JDict [(''name'', JStr ''a'')]) = Inr True \<and>
   find_target ''a'' [JDict [(''name'', JStr ''b'')], JInt 1, JDict [(''name'', JStr ''a'')]] = Inl AttributeError \<and>
   fst (get_cvm_info
     (map_of [(''[{\"name\":\"b\"},1,{\"name\":\"a\"}]'',
        JList [JDict [(''name'', JStr ''b'')], JInt 1, JDict [(''name'', JStr ''a'')]])])
     ''a'' (fresh_world ''[{\"name\":\"b\"},1,{\"name\":\"a\"}]'')) = None"
proof -
  let ?b = "JDict [(''name'', JStr ''b'')]"
  let ?a = "JDict [(''name'', JStr ''a'')]"
  let ?s = "''[{\"name\":\"b\"},1,{\"name\":\"a\"}]''"
  let ?d = "JList [?b, JInt 1, ?a]"
  let ?l = "map_of [(?s, ?d)]"
  have p: "payload_is ?l (fresh_world ?s) ?d" by (simp add: payload_is_def fresh_world_def)
  have i: "items_of ?d = Inr ([?b] @ JInt 1 # [?a])" by simp
  have q: "list_all (\<lambda>p. \<not> well_formed p \<or> terminated p \<or> \<not> name_matches ''a'' p) [?b]"
    by (simp add: name_matches_def field_def hosted_of_def)
  have n: "\<not> isinstance_dict (JInt 1)" by simp
  have m: "loop_body ''a'' ?a = Inr True" by (simp add: loop_body_def)
  from C9_non_mapping_item_aborts [OF p i q [unfolded list_all_iff] n]
  have "find_target ''a'' [?b, JInt 1, ?a] = Inl AttributeError \<and>
    fst (get_cvm_info ?l ''a'' (fresh_world ?s)) = None" by simp
  with p q n m show ?thesis by simp
qed

subsection \<open>C10\<close>

text \<open>
  Claim C10.  A matched item with none of the fields \<open>id\<close>, \<open>vm_uuid\<close>,
  \<open>app_id\<close>, \<open>dapp_dashboard_url\<close>, and with none of \<open>id\<close>,
  \<open>app_id\<close>, \<open>app_url\<close> in its hosted mapping, is a success: the result
  has null at its three keys, it is printed, and the exit status is 0.
\<close>

theorem C10_all_null_result_is_success:
  assumes "2 \<le> length argv" and "payload_is loads w data" and "items_of data = Inr items"
    and "find_target (argv ! 1) items = Inr (Some m)"
    and "field m ''id'' = JNull \<and> field m ''vm_uuid'' = JNull \<and> field m ''app_id'' = JNull \<and>
         field m ''dapp_dashboard_url'' = JNull"
    and "field (hosted_of m) ''id'' = JNull \<and> field (hosted_of m) ''app_id'' = JNull \<and>
         field (hosted_of m) ''app_url'' = JNull"
  shows "fst (get_cvm_info loads (argv ! 1) w) = Some null_result \<and>
    main loads dumps argv w =
      (w\<lparr>stdin_read := True, stdout := stdout w @ dumps null_result @ newline\<rparr>, 0)"
proof -
  have "result_by first_truthy m = null_result"
    using assms(5,6)
    by (simp add: result_by_def null_result_def id_candidates_def app_id_candidates_def
        dashboard_url_candidates_def)
  with get_cvm_info_found [OF assms(2,3,4)]
  have r: "fst (get_cvm_info loads (argv ! 1) w) = Some null_result" by simp
  with assms(1) show ?thesis by (simp add: main_with_name)
qed

text \<open>The theorem at a concrete input.\<close>

theorem C10_all_null_result_is_success_witness:
  "2 \<le> length [''get_cvm_info.py'', ''a''] \<and>
   payload_is (map_of [(''[{\"name\":\"a\"}]'', JList [JDict [(''name'', JStr ''a'')]])])
     (fresh_world ''[{\"name\":\"a\"}]'') (JList [JDict [(''name'', JStr ''a'')]]) \<and>
   find_target ([''get_cvm_info.py'', ''a''] ! 1) [JDict [(''name'', JStr ''a'')]]
     = Inr (Some (JDict [(''name'', JStr ''a'')])) \<and>
   fst (get_cvm_info (map_of [(''[{\"name\":\"a\"}]'', JList [JDict [(''name'', JStr ''a'')]])])
     ''a'' (fresh_world ''[{\"name\":\"a\"}]''))
     = Some (JDict [(''id'', JNull), (''app_id'', JNull), (''dashboard_url'', JNull)]) \<and>
   main (map_of [(''[{\"name\":\"a\"}]'', JList [JDict [(''name'', JStr ''a'')]])])
     (\<lambda>r. if r = JDict [(''id'', JNull), (''app_id'', JNull), (''dashboard_url'', JNull)]
          then ''{\"id\": null, \"app_id\": null, \"dashboard_url\": null}'' else [])
     [''get_cvm_info.py'', ''a''] (fresh_world ''[{\"name\":\"a\"}]'')
     = (\<lparr>stdin_text = Inr ''[{\"name\":\"a\"}]'', stdin_read = True,
         stdout = ''{\"id\": null, \"app_id\": null, \"dashboard_url\": null}'' @ [CHR 0x0A],
         stderr = []\<rparr>, 0)"
proof -
  let ?m = "JDict [(''name'', JStr ''a'')]"
  let ?s = "''[{\"name\":\"a\"}]''"
  let ?l = "map_of [(?s, JList [?m])]"
  let ?dumps = "\<lambda>r. if r = JDict [(''id'', JNull), (''app_id'', JNull), (''dashboard_url'', JNull)]
          then ''{\"id\": null, \"app_id\": null, \"dashboard_url\": null}'' else []"
  have l: "2 \<le> length [''get_cvm_info.py'', ''a'']" by simp
  have p: "payload_is ?l (fresh_world ?s) (JList [?m])" by (simp add: payload_is_def fresh_world_def)
  have i: "items_of (JList [?m]) = Inr [?m]" by simp
  have f: "find_target ([''get_cvm_info.py'', ''a''] ! 1) [?m] = Inr (Some ?m)"
    by (simp add: loop_body_def)
  have a: "field ?m ''id'' = JNull \<and> field ?m ''vm_uuid'' = JNull \<and> field ?m ''app_id'' = JNull \<and>
         field ?m ''dapp_dashboard_url'' = JNull" by (simp add: field_def)
  have b: "field (hosted_of ?m) ''id'' = JNull \<and> field (hosted_of ?m) ''app_id'' = JNull \<and>
         field (hosted_of ?m) ''app_url'' = JNull" by (simp add: field_def hosted_of_def)
  from C10_all_null_result_is_success [OF l p i f a b, of ?dumps]
  have "fst (get_cvm_info ?l ''a'' (fresh_world ?s)) = Some null_result \<and>
    main ?l ?dumps [''get_cvm_info.py'', ''a''] (fresh_world ?s) =
      (\<lparr>stdin_text = Inr ?s, stdin_read = True,
         stdout = ''{\"id\": null, \"app_id\": null, \"dashboard_url\": null}'' @ [CHR 0x0A],
         stderr = []\<rparr>, 0)"
    by (simp add: null_result_def fresh_world_def newline_def)
  with l p f show ?thesis by (simp add: null_result_def)
qed

end
